theory Spec2Isabelle
  imports Main "HOL-Library.Sublist"
begin

section \<open>The Go standard library, as the program sees it\<close>

text \<open>
  The program \<^verbatim>\<open>parseMIMEmail.go\<close> is three functions (\<^verbatim>\<open>BuildFileName\<close>,
  \<^verbatim>\<open>WritePart\<close>, \<^verbatim>\<open>ParsePart\<close>) and \<^verbatim>\<open>main\<close>, written on top of the Go standard
  library. The library is not part of the repository: its functions are the fields of
  the record \<open>stdlib\<close> (one field per library call whose result the program inspects),
  and a stream is the value of the observations the program makes of it. A Go
  \<^verbatim>\<open>(value, error)\<close> pair is a sum: \<open>Inl\<close> carries the text of the error, \<open>Inr\<close> the
  value returned with a \<^verbatim>\<open>nil\<close> error.
\<close>

type_synonym bytes = string

text \<open>
  \<^verbatim>\<open>textproto.MIMEHeader\<close> is \<^verbatim>\<open>map[string][]string\<close> with canonical keys. The list
  order stands for the order in which \<^verbatim>\<open>range\<close> happens to visit the keys.
\<close>

type_synonym header = "(string \<times> string list) list"

definition Get :: "header \<Rightarrow> string \<Rightarrow> string" where
  "Get h key = (case map_of h key of None \<Rightarrow> [] | Some [] \<Rightarrow> [] | Some (v # _) \<Rightarrow> v)"

text \<open>
  An \<^verbatim>\<open>io.Reader\<close> is observed in two ways: \<^verbatim>\<open>ioutil.ReadAll\<close> on it, and
  \<^verbatim>\<open>multipart.NewReader(r, boundary)\<close> followed by \<^verbatim>\<open>NextPart()\<close> until it returns
  an error. \<open>NextParts r boundary\<close> is the sequence of parts returned with a \<^verbatim>\<open>nil\<close>
  error, and \<open>NextErr r boundary\<close> the error that ends it: \<open>None\<close> for \<^verbatim>\<open>io.EOF\<close>,
  \<open>Some\<close> for any other. A \<^verbatim>\<open>*multipart.Part\<close> has a header, the result of its method
  \<^verbatim>\<open>FileName()\<close>, and is itself a reader of its body. The program observes each reader
  once, one way or the other. The parts that a reader returns do not depend on what the
  program did with the parts returned before: \<^verbatim>\<open>NextPart()\<close> skips what is left unread
  of the previous part. For a part declared \<^verbatim>\<open>quoted-printable\<close>, \<^verbatim>\<open>NextPart()\<close> removes
  the \<^verbatim>\<open>Content-Transfer-Encoding\<close> header and decodes the body itself: the program sees
  a part without that header, and a malformed body as an error of \<^verbatim>\<open>ReadAll\<close>.
\<close>

datatype reader =
  Reader (ReadAll: "string + bytes")
         (NextParts: "string \<Rightarrow> part list")
         (NextErr: "string \<Rightarrow> string option")
and part =
  Part (Header: header) (FileName: string) (body: reader)

record stdlib =
  ParseMediaType :: "string \<Rightarrow> string + (string \<times> (string \<rightharpoonup> string))"
  ExtensionsByType :: "string \<Rightarrow> string + string list"
  DecodeString :: "bytes \<Rightarrow> string + bytes"
  quotedprintable_ReadAll :: "bytes \<Rightarrow> string + bytes"
  WriteFile :: "string \<Rightarrow> bytes \<Rightarrow> string option"
  DecodeHeader :: "string \<Rightarrow> string"
  GoSyntax :: "string list \<Rightarrow> string"
  ToUpper :: "string \<Rightarrow> string"
  Repeat :: "string \<Rightarrow> int \<Rightarrow> string + string"

text \<open>
  \<open>DecodeString\<close> is \<^verbatim>\<open>base64.StdEncoding.DecodeString\<close>; \<open>quotedprintable_ReadAll\<close> is
  \<^verbatim>\<open>ioutil.ReadAll(quotedprintable.NewReader(bytes.NewReader(data)))\<close>; \<open>WriteFile name
  data\<close> is the error returned by \<^verbatim>\<open>ioutil.WriteFile(name, data, 0644)\<close>, \<open>None\<close> when
  the file was written; \<open>DecodeHeader\<close> is the string returned by
  \<^verbatim>\<open>WordDecoder.DecodeHeader\<close>; \<open>GoSyntax\<close> is the \<^verbatim>\<open>%#v\<close> rendering of a
  \<^verbatim>\<open>[]string\<close>; \<open>ToUpper\<close> is \<^verbatim>\<open>strings.ToUpper\<close>, which maps every Unicode letter to its
  upper case. \<open>Repeat s count\<close> is what \<^verbatim>\<open>strings.Repeat(s, count)\<close> does: \<open>Inr\<close> the string
  it returns, or \<open>Inl\<close> the message with which it stops the program. It panics when
  \<^verbatim>\<open>count\<close> is negative and when \<^verbatim>\<open>len(s) * count\<close> overflows, and the program dies in it
  when the result is too long to be allocated (\<^verbatim>\<open>makeslice: len out of range\<close>,
  \<^verbatim>\<open>out of memory\<close>): where that happens depends on the machine. A Go map read at a
  missing key gives the zero value.
\<close>

definition map_index :: "(string \<rightharpoonup> string) \<Rightarrow> string \<Rightarrow> string" where
  "map_index params key = (case params key of None \<Rightarrow> [] | Some v \<Rightarrow> v)"

subsection \<open>Strings and integers\<close>

text \<open>Go's \<^verbatim>\<open>int\<close> is 64 bits wide, in two's complement: arithmetic wraps.\<close>

definition int64 :: "int \<Rightarrow> int" where
  "int64 x = (x + 2 ^ 63) mod 2 ^ 64 - 2 ^ 63"

text \<open>
  The program can be stopped at two places: inside \<^verbatim>\<open>strings.Repeat\<close>, with the message
  of the library, and at the expression \<^verbatim>\<open>mime_type[0]\<close> of \<open>BuildFileName\<close>, when the
  slice is empty.
\<close>

datatype panic = InRepeat string | IndexOutOfRange

text \<open>The verb \<^verbatim>\<open>%d\<close>.\<close>

fun decimal :: "nat \<Rightarrow> string" where
  "decimal n =
     (if n < 10 then [''0123456789'' ! n]
      else decimal (n div 10) @ [''0123456789'' ! (n mod 10)])"

definition Itoa :: "int \<Rightarrow> string" where
  "Itoa i = (if i < 0 then ''-'' @ decimal (nat (- i)) else decimal (nat i))"

section \<open>What a run does\<close>

text \<open>
  A run is the sequence of its effects and the way it ended. \<open>Stdout\<close> is text written
  by \<^verbatim>\<open>fmt.Println\<close> or \<^verbatim>\<open>fmt.Printf\<close>; \<open>Log\<close> is a message given to the logger (its
  time and position prefix left out); \<open>FileWrite name data err\<close> is one call of
  \<^verbatim>\<open>ioutil.WriteFile\<close> with the error it returned. A run ends by returning, by a
  panic, or by the \<^verbatim>\<open>os.Exit(1)\<close> of \<^verbatim>\<open>log.Fatal\<close>.
\<close>

datatype event = Stdout string | Log string | FileWrite string bytes "string option"

datatype status = Returned | Panicked panic | Exited

type_synonym run = "event list \<times> status"

fun seq :: "run \<Rightarrow> run \<Rightarrow> run" where
  "seq (es, Returned) r = (es @ fst r, snd r)"
| "seq (es, st) r = (es, st)"

fun seqs :: "run list \<Rightarrow> run" where
  "seqs [] = ([], Returned)"
| "seqs (r # rs) = seq r (seqs rs)"

definition newline :: string where
  "newline = [CHR 0x0A]"

definition Println :: "string \<Rightarrow> run" where
  "Println s = ([Stdout (s @ newline)], Returned)"

definition log_Println :: "string \<Rightarrow> event" where
  "log_Println s = Log (s @ newline)"

definition log_Fatal :: "string \<Rightarrow> run" where
  "log_Fatal s = ([Log (s @ newline)], Exited)"

text \<open>
  The first operand of the diagnostic prints is
  \<^verbatim>\<open>strings.Repeat("  ", 2*(index-1))\<close>; \<^verbatim>\<open>Println\<close> puts a space between operands.
\<close>

definition indentation :: "stdlib \<Rightarrow> int \<Rightarrow> string + string" where
  "indentation L index = Repeat L ''  '' (int64 (2 * int64 (index - 1)))"

definition Println_indented :: "stdlib \<Rightarrow> int \<Rightarrow> string \<Rightarrow> run" where
  "Println_indented L index rest =
     (case indentation L index of
        Inl msg \<Rightarrow> ([], Panicked (InRepeat msg))
      | Inr ind \<Rightarrow> Println (ind @ '' '' @ rest))"

text \<open>\<^verbatim>\<open>fmt.Printf("%s Key: (%+v) - %d Value: (%#v)\n", indentation, key, len(value), value)\<close>\<close>

definition Printf_header :: "stdlib \<Rightarrow> int \<Rightarrow> string \<Rightarrow> string list \<Rightarrow> run" where
  "Printf_header L index key val =
     (case indentation L index of
        Inl msg \<Rightarrow> ([], Panicked (InRepeat msg))
      | Inr ind \<Rightarrow>
          ([Stdout (ind @ '' Key: ('' @ key @ '') - '' @ decimal (length val)
                    @ '' Value: ('' @ GoSyntax L val @ '')'' @ newline)], Returned))"

section \<open>The program\<close>

subsection \<open>BuildFileName\<close>

definition BuildFileName :: "stdlib \<Rightarrow> part \<Rightarrow> string \<Rightarrow> int \<Rightarrow> panic + string" where
  "BuildFileName L part radix index =
     (let filename = FileName part in
      if length filename > 0 then Inr filename
      else
        case ParseMediaType L (Get (Header part) ''Content-Type'') of
          Inr (mediaType, _) \<Rightarrow>
            (case ExtensionsByType L mediaType of
               Inr mime_type \<Rightarrow>
                 (case mime_type of
                    [] \<Rightarrow> Inl IndexOutOfRange
                  | ext # _ \<Rightarrow> Inr (radix @ ''-'' @ Itoa index @ ext))
             | Inl e \<Rightarrow> Inr filename)
        | Inl err \<Rightarrow> Inr filename)"

subsection \<open>WritePart\<close>

definition WritePart :: "stdlib \<Rightarrow> part \<Rightarrow> string \<Rightarrow> event list" where
  "WritePart L part filename =
     (case ReadAll (body part) of
        Inl err \<Rightarrow> [log_Println (''Error reading MIME part data - '' @ err)]
      | Inr part_data \<Rightarrow>
          (let content_transfer_encoding =
                 ToUpper L (Get (Header part) ''Content-Transfer-Encoding'') in
           if content_transfer_encoding = ''BASE64'' then
             (case DecodeString L part_data of
                Inl err \<Rightarrow> [log_Println (''Error decoding base64 - '' @ err)]
              | Inr decoded_content \<Rightarrow>
                  [FileWrite filename decoded_content (WriteFile L filename decoded_content)])
           else if content_transfer_encoding = ''QUOTED-PRINTABLE'' then
             (case quotedprintable_ReadAll L part_data of
                Inl err \<Rightarrow> [log_Println (''Error decoding quoted-printable - '' @ err)]
              | Inr decoded_content \<Rightarrow>
                  [FileWrite filename decoded_content (WriteFile L filename decoded_content)])
           else [FileWrite filename part_data (WriteFile L filename part_data)]))"

subsection \<open>ParsePart\<close>

text \<open>
  The \<^verbatim>\<open>else\<close> branch of the loop body: the part is named and written. The index
  given to \<open>BuildFileName\<close> is the constant 1.
\<close>

definition leaf_branch :: "stdlib \<Rightarrow> part \<Rightarrow> string \<Rightarrow> run" where
  "leaf_branch L new_part boundary =
     (case BuildFileName L new_part boundary 1 of
        Inl p \<Rightarrow> ([], Panicked p)
      | Inr filename \<Rightarrow> (WritePart L new_part filename, Returned))"

text \<open>The prints at the head of the loop body.\<close>

definition print_part_header :: "stdlib \<Rightarrow> header \<Rightarrow> int \<Rightarrow> run" where
  "print_part_header L h index =
     seq (seqs (map (\<lambda>(key, val). Printf_header L index key val) h))
         (Println_indented L index ''------------'')"

text \<open>
  \<open>ParsePart\<close> is the function; \<open>loop_body\<close> is one turn of its \<^verbatim>\<open>for\<close> loop on the
  part that \<^verbatim>\<open>NextPart()\<close> returned. \<^verbatim>\<open>multipart.NewReader\<close> never returns \<^verbatim>\<open>nil\<close>,
  so the first \<^verbatim>\<open>return\<close> is never taken. The loop ends at the first error of
  \<^verbatim>\<open>NextPart()\<close>, which is printed unless it is \<^verbatim>\<open>io.EOF\<close>.
\<close>

primrec ParsePart :: "stdlib \<Rightarrow> reader \<Rightarrow> string \<Rightarrow> int \<Rightarrow> run"
  and loop_body :: "stdlib \<Rightarrow> part \<Rightarrow> string \<Rightarrow> int \<Rightarrow> run"
where
  "ParsePart L (Reader data parts stop) boundary index =
     seq (Println_indented L index (''>>>>>>>>>>>>>  '' @ boundary))
    (seq (seqs (map (\<lambda>new_part. loop_body L new_part boundary index) (parts boundary)))
    (seq (case stop boundary of
            None \<Rightarrow> ([], Returned)
          | Some err \<Rightarrow> Println (''Error going through the MIME parts - '' @ err))
         (Println_indented L index (''<<<<<<<<<<<<<  '' @ boundary))))"
| "loop_body L (Part h fname r) boundary index =
     seq (print_part_header L h index)
         (case ParseMediaType L (Get h ''Content-Type'') of
            Inr (mediaType, params) \<Rightarrow>
              if prefix ''multipart/'' mediaType
              then ParsePart L r (map_index params ''boundary'') (int64 (index + 1))
              else leaf_branch L (Part h fname r) boundary
          | Inl err \<Rightarrow> leaf_branch L (Part h fname r) boundary)"

subsection \<open>main\<close>

record message =
  msg_Header :: header
  msg_Body :: reader

text \<open>The argument is what \<^verbatim>\<open>mail.ReadMessage(os.Stdin)\<close> returned.\<close>

definition main :: "stdlib \<Rightarrow> string + message \<Rightarrow> run" where
  "main L read_message =
     (case read_message of
        Inl err \<Rightarrow> log_Fatal (''Parse mail KO - '' @ err)
      | Inr m \<Rightarrow>
          seq (Println (''From: '' @ DecodeHeader L (Get (msg_Header m) ''From'')))
         (seq (Println (''To: '' @ DecodeHeader L (Get (msg_Header m) ''To'')))
         (seq (Println (''Date: '' @ Get (msg_Header m) ''Date''))
         (seq (Println (''Subject: '' @ DecodeHeader L (Get (msg_Header m) ''Subject'')))
         (seq (Println (''Content-Type: '' @ Get (msg_Header m) ''Content-Type''))
         (seq (Println [])
              (case ParseMediaType L (Get (msg_Header m) ''Content-Type'') of
                 Inl err \<Rightarrow> log_Fatal err
               | Inr (mediaType, params) \<Rightarrow>
                   if \<not> prefix ''multipart/'' mediaType
                   then log_Fatal ''Not a multipart MIME message''
                   else ParsePart L (msg_Body m) (map_index params ''boundary'') 1)))))))"

section \<open>Observations of a run\<close>

text \<open>The files written, in order: the calls of \<^verbatim>\<open>ioutil.WriteFile\<close> that returned no error.\<close>

fun written :: "event list \<Rightarrow> (string \<times> bytes) list" where
  "written [] = []"
| "written (FileWrite name data None # es) = (name, data) # written es"
| "written (e # es) = written es"

text \<open>What the program reports: the text on standard output and the log messages.\<close>

fun reported :: "event list \<Rightarrow> event list" where
  "reported [] = []"
| "reported (FileWrite name data err # es) = reported es"
| "reported (e # es) = e # reported es"

text \<open>What a run does apart from printing on standard output: log messages and file writes.\<close>

fun off_stdout :: "event list \<Rightarrow> event list" where
  "off_stdout [] = []"
| "off_stdout (Stdout s # es) = off_stdout es"
| "off_stdout (e # es) = e # off_stdout es"

text \<open>The test of the loop body: \<^verbatim>\<open>err == nil && strings.HasPrefix(mediaType, "multipart/")\<close>.\<close>

definition is_multipart :: "stdlib \<Rightarrow> part \<Rightarrow> bool" where
  "is_multipart L p =
     (case ParseMediaType L (Get (Header p) ''Content-Type'') of
        Inr (mediaType, params) \<Rightarrow> prefix ''multipart/'' mediaType
      | Inl err \<Rightarrow> False)"

text \<open>The boundary handed to the recursive call: \<^verbatim>\<open>params["boundary"]\<close>.\<close>

definition declared_boundary :: "stdlib \<Rightarrow> part \<Rightarrow> string" where
  "declared_boundary L p =
     (case ParseMediaType L (Get (Header p) ''Content-Type'') of
        Inr (mediaType, params) \<Rightarrow> map_index params ''boundary''
      | Inl err \<Rightarrow> [])"

text \<open>The two tests of \<open>main\<close> on the \<^verbatim>\<open>Content-Type\<close> of the message.\<close>

definition top_level_unclassifiable :: "stdlib \<Rightarrow> message \<Rightarrow> bool" where
  "top_level_unclassifiable L m =
     (case ParseMediaType L (Get (msg_Header m) ''Content-Type'') of
        Inl err \<Rightarrow> True
      | Inr (mediaType, params) \<Rightarrow> \<not> prefix ''multipart/'' mediaType)"

text \<open>The \<^verbatim>\<open>for\<close> loop of \<open>ParsePart\<close> on the parts that \<^verbatim>\<open>NextPart()\<close> returns.\<close>

abbreviation for_loop :: "stdlib \<Rightarrow> part list \<Rightarrow> string \<Rightarrow> int \<Rightarrow> run" where
  "for_loop L ps boundary index \<equiv>
     seqs (map (\<lambda>new_part. loop_body L new_part boundary index) ps)"

text \<open>Two runs report the same: same text on standard output, same log, same end.\<close>

definition same_reports :: "run \<Rightarrow> run \<Rightarrow> bool" where
  "same_reports a b = (reported (fst a) = reported (fst b) \<and> snd a = snd b)"



text \<open>The text of the indentation at an index from 1, where it can be built.\<close>

definition indent_text :: "int \<Rightarrow> string" where
  "indent_text index = concat (replicate (nat (2 * (index - 1))) ''  '')"

section \<open>A concrete library and concrete messages\<close>

text \<open>
  The theorems below hold for every library. To run the program on a message a library
  is needed: \<open>lib0\<close> tabulates what the Go library returns on the few arguments the
  example messages give it. \<^verbatim>\<open>mime.ParseMediaType("")\<close> fails with
  \<^verbatim>\<open>mime: no media type\<close>; \<^verbatim>\<open>mime.ExtensionsByType\<close> returns a \<^verbatim>\<open>nil\<close> slice and a
  \<^verbatim>\<open>nil\<close> error for a type with no registered extension; \<^verbatim>\<open>aGkh\<close> is the base64 of
  \<^verbatim>\<open>hi!\<close>, and \<^verbatim>\<open>!!!!\<close> is not base64; the quoted-printable reader rejects the byte
  \<^verbatim>\<open>0x01\<close>; no file can be created under the empty name. The header values of the
  examples are ASCII text, where \<^verbatim>\<open>strings.ToUpper\<close> maps \<^verbatim>\<open>a\<close> to \<^verbatim>\<open>z\<close> onto \<^verbatim>\<open>A\<close> to
  \<^verbatim>\<open>Z\<close>. \<^verbatim>\<open>strings.Repeat\<close> is the one of a machine that can allocate a string of up to
  \<open>limit\<close> bytes, \<open>2 ^ 20\<close> for \<open>lib0\<close>.
\<close>

definition upper_char :: "char \<Rightarrow> char" where
  "upper_char c =
     (case map_of (zip ''abcdefghijklmnopqrstuvwxyz'' ''ABCDEFGHIJKLMNOPQRSTUVWXYZ'') c of
        None \<Rightarrow> c
      | Some u \<Rightarrow> u)"

definition ascii_upper :: "string \<Rightarrow> string" where
  "ascii_upper s = map upper_char s"

definition Repeat_within :: "int \<Rightarrow> string \<Rightarrow> int \<Rightarrow> string + string" where
  "Repeat_within limit s count =
     (if count < 0 then Inl ''strings: negative Repeat count''
      else if int (length s) * count > limit then Inl ''runtime: out of memory''
      else Inr (concat (replicate (nat count) s)))"

definition media_types :: "string \<Rightarrow> string + (string \<times> (string \<rightharpoonup> string))" where
  "media_types v =
     (if v = ''text/plain'' then Inr (''text/plain'', Map.empty)
      else if v = ''text/html'' then Inr (''text/html'', Map.empty)
      else if v = ''application/x-unregistered'' then Inr (''application/x-unregistered'', Map.empty)
      else if v = ''multipart/mixed'' then Inr (''multipart/mixed'', Map.empty)
      else if prefix ''multipart/mixed; boundary='' v
        then Inr (''multipart/mixed'',
                  [''boundary'' \<mapsto> drop (length ''multipart/mixed; boundary='') v])
      else Inl ''mime: no media type'')"

definition extensions :: "string \<Rightarrow> string + string list" where
  "extensions t =
     (if t = ''text/plain'' then Inr [''.txt'']
      else if t = ''text/html'' then Inr [''.htm'', ''.html'']
      else Inr [])"

definition quoted :: "string \<Rightarrow> string" where
  "quoted v = [CHR 0x22] @ v @ [CHR 0x22]"

fun joined :: "string list \<Rightarrow> string" where
  "joined [] = []"
| "joined [v] = v"
| "joined (v # vs) = v @ '', '' @ joined vs"

definition lib0 :: stdlib where
  "lib0 = \<lparr>
     ParseMediaType = media_types,
     ExtensionsByType = extensions,
     DecodeString =
       (\<lambda>d. if d = ''aGkh'' then Inr ''hi!'' else Inl ''illegal base64 data at input byte 0''),
     quotedprintable_ReadAll =
       (\<lambda>d. if d = [CHR 0x01] then Inl ''quotedprintable: invalid unprintable byte 0x01''
            else Inr d),
     WriteFile = (\<lambda>name d. if name = [] then Some ''open : no such file or directory'' else None),
     DecodeHeader = (\<lambda>v. v),
     GoSyntax = (\<lambda>vs. ''[]string{'' @ joined (map quoted vs) @ ''}''),
     ToUpper = ascii_upper,
     Repeat = Repeat_within (2 ^ 20) \<rparr>"

text \<open>
  A reader over bytes in which no boundary line occurs: the multipart reader finds no
  part in it and stops at the end of the data with an error.
\<close>

definition plain :: "bytes \<Rightarrow> reader" where
  "plain data =
     Reader (Inr data)
            (\<lambda>boundary. [])
            (\<lambda>boundary. Some (if boundary = [] then ''multipart: boundary is empty''
                              else ''multipart: NextPart: EOF''))"

text \<open>A reader in which the boundary \<open>b\<close> separates the parts \<open>ps\<close>, up to the closing line.\<close>

definition multi :: "string \<Rightarrow> part list \<Rightarrow> reader" where
  "multi b ps =
     Reader (Inr [])
            (\<lambda>boundary. if boundary = b then ps else [])
            (\<lambda>boundary. if boundary = b then None else Some ''multipart: NextPart: EOF'')"

definition text_part :: "bytes \<Rightarrow> part" where
  "text_part data = Part [(''Content-Type'', [''text/plain''])] [] (plain data)"

text \<open>A part with no header at all, and one whose media type has no registered extension.\<close>

definition untyped_part :: "bytes \<Rightarrow> part" where
  "untyped_part data = Part [] [] (plain data)"

definition unregistered_part :: "bytes \<Rightarrow> part" where
  "unregistered_part data =
     Part [(''Content-Type'', [''application/x-unregistered''])] [] (plain data)"

text \<open>A part declared \<^verbatim>\<open>multipart/mixed\<close> with no \<^verbatim>\<open>boundary\<close> parameter.\<close>

definition bare_multipart :: part where
  "bare_multipart =
     Part [(''Content-Type'', [''multipart/mixed'']),
           (''Content-Disposition'', [''attachment; filename=inner.bin''])]
          ''inner.bin'' (plain ''data'')"

definition plain_message :: message where
  "plain_message =
     \<lparr> msg_Header = [(''Content-Type'', [''text/plain''])], msg_Body = plain ''hello'' \<rparr>"

definition headerless_message :: message where
  "headerless_message = \<lparr> msg_Header = [], msg_Body = plain ''hello'' \<rparr>"

definition encoded_part :: "string \<Rightarrow> bytes \<Rightarrow> part" where
  "encoded_part cte data =
     Part [(''Content-Type'', [''text/plain'']), (''Content-Transfer-Encoding'', [cte]),
           (''Content-Disposition'', [''attachment; filename=note.txt''])]
          ''note.txt'' (plain data)"

text \<open>The library \<open>lib0\<close> on a full disk: every write fails.\<close>

definition disk_full :: stdlib where
  "disk_full = lib0\<lparr>WriteFile := \<lambda>name data. Some ''write B-1.txt: no space left on device''\<rparr>"

text \<open>A message with a nested multipart part.\<close>

definition two_level :: reader where
  "two_level =
     multi ''B''
       [text_part ''one'',
        Part [(''Content-Type'', [''multipart/mixed; boundary=inner''])] []
             (multi ''inner'' [text_part ''two''])]"

text \<open>
  A part nested \<open>n\<close> levels deep: \<open>n\<close> multipart parts, each with a boundary of its
  own, around one leaf.
\<close>

definition level_boundary :: "nat \<Rightarrow> string" where
  "level_boundary n = ''level'' @ decimal n"

fun nested :: "nat \<Rightarrow> part" where
  "nested 0 =
     Part [(''Content-Type'', [''text/plain'']),
           (''Content-Disposition'', [''attachment; filename=deep.txt''])]
          ''deep.txt'' (plain ''deep'')"
| "nested (Suc n) =
     Part [(''Content-Type'', [''multipart/mixed; boundary='' @ level_boundary n])] []
          (multi (level_boundary n) [nested n])"

text \<open>
  A leaf with no file name, of a media type with no registered extension, declared
  \<^verbatim>\<open>base64\<close>, whose body is not base64.
\<close>

definition undecodable_unnamed_part :: part where
  "undecodable_unnamed_part =
     Part [(''Content-Type'', [''application/x-unregistered'']),
           (''Content-Transfer-Encoding'', [''base64''])]
          [] (plain ''!!!!'')"

section \<open>Basic facts\<close>

lemma int64_id: "- (2 ^ 63) \<le> x \<Longrightarrow> x < 2 ^ 63 \<Longrightarrow> int64 x = x"
  by (simp add: int64_def)

lemma indentation_within:
  assumes "Repeat L = Repeat_within (2 ^ 20)" and "1 \<le> index" and "index \<le> 2 ^ 18"
  shows "indentation L index = Inr (indent_text index)"
proof -
  have a: "int64 (index - 1) = index - 1"
    using assms(2,3) by (intro int64_id) simp_all
  have "int64 (2 * (index - 1)) = 2 * (index - 1)"
    using assms(2,3) by (intro int64_id) simp_all
  with a have b: "int64 (2 * int64 (index - 1)) = 2 * (index - 1)"
    by simp
  have c: "\<not> 2 * (index - 1) < 0" "\<not> int (length ''  '') * (2 * (index - 1)) > 2 ^ 20"
    using assms(2,3) by simp_all
  show ?thesis
    unfolding indentation_def b assms(1) Repeat_within_def indent_text_def
    using c by (simp only: if_False)
qed

lemma snd_seq: "snd (seq a b) = (if snd a = Returned then snd b else snd a)"
  by (cases a; cases "snd a") auto

lemma fst_seq: "fst (seq a b) = (if snd a = Returned then fst a @ fst b else fst a)"
  by (cases a; cases "snd a") auto

lemma seq_assoc: "seq (seq a b) c = seq a (seq b c)"
  by (simp add: prod_eq_iff fst_seq snd_seq)

lemma seqs_append: "seqs (xs @ ys) = seq (seqs xs) (seqs ys)"
  by (induction xs) (simp_all add: seq_assoc prod_eq_iff fst_seq snd_seq)

lemma snd_seqs_Returned: "(\<And>r. r \<in> set rs \<Longrightarrow> snd r = Returned) \<Longrightarrow> snd (seqs rs) = Returned"
  by (induction rs) (auto simp: snd_seq)

lemma print_part_header_Returned:
  assumes "indentation L index = Inr ind"
  shows "snd (print_part_header L h index) = Returned"
proof -
  have "snd (seqs (map (\<lambda>(key, val). Printf_header L index key val) h)) = Returned"
    by (rule snd_seqs_Returned) (auto simp: Printf_header_def assms)
  then show ?thesis
    by (simp add: print_part_header_def snd_seq Println_indented_def assms Println_def)
qed

lemma loop_body_leaf:
  "\<not> is_multipart L p \<Longrightarrow>
   loop_body L p boundary index = seq (print_part_header L (Header p) index) (leaf_branch L p boundary)"
  by (cases p) (auto simp: is_multipart_def split: sum.splits)

lemma loop_body_multipart:
  "ParseMediaType L (Get (Header p) ''Content-Type'') = Inr (mediaType, params) \<Longrightarrow>
   prefix ''multipart/'' mediaType \<Longrightarrow>
   loop_body L p boundary index =
     seq (print_part_header L (Header p) index)
         (ParsePart L (body p) (map_index params ''boundary'') (int64 (index + 1)))"
  by (cases p) simp

lemmas example_defs =
  lib0_def media_types_def extensions_def quoted_def plain_def multi_def text_part_def
  encoded_part_def untyped_part_def unregistered_part_def bare_multipart_def plain_message_def
  two_level_def headerless_message_def undecodable_unnamed_part_def ascii_upper_def
  upper_char_def

lemmas program_defs =
  Get_def map_index_def Itoa_def newline_def Println_def
  log_Println_def log_Fatal_def Println_indented_def Printf_header_def print_part_header_def
  BuildFileName_def WritePart_def leaf_branch_def is_multipart_def declared_boundary_def
  top_level_unclassifiable_def

lemma written_append: "written (xs @ ys) = written xs @ written ys"
  by (induction xs rule: written.induct) simp_all

lemma reported_append: "reported (xs @ ys) = reported xs @ reported ys"
  by (induction xs rule: reported.induct) simp_all

lemma off_stdout_append: "off_stdout (xs @ ys) = off_stdout xs @ off_stdout ys"
  by (induction xs rule: off_stdout.induct) simp_all

text \<open>The indentation at the indices 1, 2 and 3, on the machine of \<open>lib0\<close>.\<close>

lemma indentation_1: "Repeat L = Repeat_within (2 ^ 20) \<Longrightarrow> indentation L 1 = Inr []"
  by (simp add: indentation_def int64_def Repeat_within_def)

lemma indentation_2: "Repeat L = Repeat_within (2 ^ 20) \<Longrightarrow> indentation L 2 = Inr ''    ''"
  by (simp add: indentation_def int64_def Repeat_within_def numeral_eq_Suc)


lemma snd_Println_indented_not_Exited: "snd (Println_indented L index s) \<noteq> Exited"
  by (simp add: Println_indented_def Println_def split: sum.splits)

lemma snd_seqs_not_Exited:
  "(\<And>r. r \<in> set rs \<Longrightarrow> snd r \<noteq> Exited) \<Longrightarrow> snd (seqs rs) \<noteq> Exited"
  by (induction rs) (auto simp: snd_seq)

lemma snd_print_part_header_not_Exited: "snd (print_part_header L h index) \<noteq> Exited"
proof -
  have "snd (seqs (map (\<lambda>(key, val). Printf_header L index key val) h)) \<noteq> Exited"
    by (rule snd_seqs_not_Exited) (auto simp: Printf_header_def split: sum.splits)
  then show ?thesis
    by (simp add: print_part_header_def snd_seq snd_Println_indented_not_Exited)
qed

lemma snd_leaf_branch_not_Exited: "snd (leaf_branch L p boundary) \<noteq> Exited"
  by (simp add: leaf_branch_def split: sum.splits)

lemma ParsePart_not_Exited:
  fixes r :: reader and p :: part
  shows "snd (ParsePart L r boundary index) \<noteq> Exited"
    and "snd (loop_body L p boundary index) \<noteq> Exited"
proof (induction r and p arbitrary: boundary index and boundary index)
  case (Reader data parts stop)
  have "snd (loop_body L q boundary index) \<noteq> Exited" if "q \<in> set (parts boundary)" for q
    using that by (rule Reader.IH [OF rangeI])
  then have "snd (for_loop L (parts boundary) boundary index) \<noteq> Exited"
    by (intro snd_seqs_not_Exited) auto
  then show ?case
    by (simp add: snd_seq snd_Println_indented_not_Exited Println_def split: option.splits)
next
  case (Part h fname r)
  show ?case
    by (simp add: snd_seq snd_print_part_header_not_Exited snd_leaf_branch_not_Exited Part.IH
        split: sum.splits)
qed

lemma main_read:
  "main L (Inr m) =
     seq (Println (''From: '' @ DecodeHeader L (Get (msg_Header m) ''From'')))
    (seq (Println (''To: '' @ DecodeHeader L (Get (msg_Header m) ''To'')))
    (seq (Println (''Date: '' @ Get (msg_Header m) ''Date''))
    (seq (Println (''Subject: '' @ DecodeHeader L (Get (msg_Header m) ''Subject'')))
    (seq (Println (''Content-Type: '' @ Get (msg_Header m) ''Content-Type''))
    (seq (Println [])
         (if top_level_unclassifiable L m
          then log_Fatal (case ParseMediaType L (Get (msg_Header m) ''Content-Type'') of
                            Inl err \<Rightarrow> err | Inr x \<Rightarrow> ''Not a multipart MIME message'')
          else ParsePart L (msg_Body m) (map_index (snd (projr (ParseMediaType L (Get (msg_Header m) ''Content-Type'')))) ''boundary'') 1))))))"
  by (simp add: main_def top_level_unclassifiable_def split: sum.splits)

subsection \<open>The prints of the loop body are text on standard output\<close>

lemma written_Printf_header: "written (fst (Printf_header L index key val)) = []"
  by (simp add: Printf_header_def split: sum.splits)

lemma written_seqs_nil:
  "(\<And>r. r \<in> set rs \<Longrightarrow> written (fst r) = []) \<Longrightarrow> written (fst (seqs rs)) = []"
  by (induction rs) (auto simp: fst_seq written_append)

lemma written_print_part_header: "written (fst (print_part_header L h index)) = []"
proof -
  have "written (fst (seqs (map (\<lambda>(key, val). Printf_header L index key val) h))) = []"
    by (rule written_seqs_nil) (auto simp: written_Printf_header)
  then show ?thesis
    by (simp add: print_part_header_def fst_seq written_append Println_indented_def Println_def
        split: sum.splits)
qed

lemma off_stdout_Printf_header: "off_stdout (fst (Printf_header L index key val)) = []"
  by (simp add: Printf_header_def split: sum.splits)

lemma off_stdout_seqs_nil:
  "(\<And>r. r \<in> set rs \<Longrightarrow> off_stdout (fst r) = []) \<Longrightarrow> off_stdout (fst (seqs rs)) = []"
  by (induction rs) (auto simp: fst_seq off_stdout_append)

lemma off_stdout_print_part_header: "off_stdout (fst (print_part_header L h index)) = []"
proof -
  have "off_stdout (fst (seqs (map (\<lambda>(key, val). Printf_header L index key val) h))) = []"
    by (rule off_stdout_seqs_nil) (auto simp: off_stdout_Printf_header)
  then show ?thesis
    by (simp add: print_part_header_def fst_seq off_stdout_append Println_indented_def Println_def
        split: sum.splits)
qed

lemma only_Stdout_reported: "off_stdout es = [] \<Longrightarrow> reported es = es"
proof (induction es)
  case Nil
  show ?case by simp
next
  case (Cons e es)
  then show ?case by (cases e) simp_all
qed

lemma only_Stdout_no_write: "off_stdout es = [] \<Longrightarrow> FileWrite name data outcome \<notin> set es"
proof (induction es)
  case Nil
  show ?case by simp
next
  case (Cons e es)
  then show ?case by (cases e) simp_all
qed

lemma Println_indented_ok:
  "indentation L index = Inr ind \<Longrightarrow>
   Println_indented L index s = ([Stdout (ind @ '' '' @ s @ newline)], Returned)"
  by (simp add: Println_indented_def Println_def)

subsection \<open>What WritePart does\<close>

text \<open>\<open>WritePart\<close> does one thing: it logs one error or calls \<^verbatim>\<open>ioutil.WriteFile\<close> once.\<close>

lemma WritePart_single: "e \<in> set (WritePart L p filename) \<Longrightarrow> WritePart L p filename = [e]"
  by (auto simp: WritePart_def Let_def split: sum.splits if_splits)

lemma WritePart_read_failure:
  "ReadAll (body p) = Inl err \<Longrightarrow>
   WritePart L p filename = [log_Println (''Error reading MIME part data - '' @ err)]"
  by (simp add: WritePart_def)

lemma WritePart_base64_failure:
  "ReadAll (body p) = Inr part_data \<Longrightarrow>
   ToUpper L (Get (Header p) ''Content-Transfer-Encoding'') = ''BASE64'' \<Longrightarrow>
   DecodeString L part_data = Inl err \<Longrightarrow>
   WritePart L p filename = [log_Println (''Error decoding base64 - '' @ err)]"
  by (simp add: WritePart_def)

subsection \<open>The outcome of the writes is not looked at\<close>

lemma same_reports_refl: "same_reports a a"
  by (simp add: same_reports_def)

lemma seq_same_reports:
  "same_reports a a' \<Longrightarrow> same_reports b b' \<Longrightarrow> same_reports (seq a b) (seq a' b')"
  by (simp add: same_reports_def fst_seq snd_seq reported_append)

lemma seqs_same_reports:
  "(\<And>x. x \<in> set xs \<Longrightarrow> same_reports (f x) (g x)) \<Longrightarrow>
   same_reports (seqs (map f xs)) (seqs (map g xs))"
  by (induction xs) (simp_all add: same_reports_refl seq_same_reports)

lemma BuildFileName_WriteFile:
  "BuildFileName (L\<lparr>WriteFile := w\<rparr>) p radix index = BuildFileName L p radix index"
  by (simp add: BuildFileName_def Let_def split: sum.splits prod.splits list.splits)

lemma indentation_WriteFile: "indentation (L\<lparr>WriteFile := w\<rparr>) index = indentation L index"
  by (simp add: indentation_def)

lemma Println_indented_WriteFile:
  "Println_indented (L\<lparr>WriteFile := w\<rparr>) index s = Println_indented L index s"
  by (simp add: Println_indented_def indentation_WriteFile)

lemma Printf_header_WriteFile:
  "Printf_header (L\<lparr>WriteFile := w\<rparr>) index key val = Printf_header L index key val"
  by (simp add: Printf_header_def indentation_WriteFile split: sum.splits)

lemma print_part_header_WriteFile:
  "print_part_header (L\<lparr>WriteFile := w\<rparr>) h index = print_part_header L h index"
  by (simp add: print_part_header_def Printf_header_WriteFile Println_indented_WriteFile)

lemma reported_WritePart:
  "reported (WritePart (L\<lparr>WriteFile := w\<rparr>) p filename) = reported (WritePart L p filename)"
  by (simp add: WritePart_def Let_def log_Println_def split: sum.splits)

lemma leaf_branch_WriteFile:
  "same_reports (leaf_branch (L\<lparr>WriteFile := w\<rparr>) p boundary) (leaf_branch L p boundary)"
  by (simp add: same_reports_def leaf_branch_def BuildFileName_WriteFile reported_WritePart
      split: sum.splits)

lemma ParsePart_WriteFile:
  fixes r :: reader and p :: part
  shows "same_reports (ParsePart (L\<lparr>WriteFile := w\<rparr>) r boundary index)
                      (ParsePart L r boundary index)"
    and "same_reports (loop_body (L\<lparr>WriteFile := w\<rparr>) p boundary index)
                      (loop_body L p boundary index)"
proof (induction r and p arbitrary: boundary index and boundary index)
  case (Reader data parts stop)
  show ?case
    unfolding ParsePart.simps Println_indented_WriteFile
    by (intro seq_same_reports seqs_same_reports same_reports_refl Reader.IH [OF rangeI])
next
  case (Part h fname r)
  have "same_reports
          (case ParseMediaType L (Get h ''Content-Type'') of
             Inl err \<Rightarrow> leaf_branch (L\<lparr>WriteFile := w\<rparr>) (Part h fname r) boundary
           | Inr (mediaType, params) \<Rightarrow>
               if prefix ''multipart/'' mediaType
               then ParsePart (L\<lparr>WriteFile := w\<rparr>) r (map_index params ''boundary'')
                      (int64 (index + 1))
               else leaf_branch (L\<lparr>WriteFile := w\<rparr>) (Part h fname r) boundary)
          (case ParseMediaType L (Get h ''Content-Type'') of
             Inl err \<Rightarrow> leaf_branch L (Part h fname r) boundary
           | Inr (mediaType, params) \<Rightarrow>
               if prefix ''multipart/'' mediaType
               then ParsePart L r (map_index params ''boundary'') (int64 (index + 1))
               else leaf_branch L (Part h fname r) boundary)"
    by (simp add: leaf_branch_WriteFile Part.IH split: sum.splits prod.splits)
  then show ?case
    unfolding loop_body.simps print_part_header_WriteFile
    by (intro seq_same_reports same_reports_refl) simp
qed

subsection \<open>The index is used for the indentation only\<close>











subsection \<open>Nested parts\<close>

lemma media_types_boundary:
  "media_types (''multipart/mixed; boundary='' @ b) = Inr (''multipart/mixed'', [''boundary'' \<mapsto> b])"
  by (simp add: media_types_def)

text \<open>
  With the media types of \<open>lib0\<close> and any \<^verbatim>\<open>strings.Repeat\<close>: if the indentation can be
  built at the indices \<open>i\<close> to \<open>i + n\<close>, the loop body at index \<open>i\<close> goes through the \<open>n\<close>
  levels of \<open>nested n\<close> and writes the leaf.
\<close>

lemma loop_body_nested:
  assumes "\<And>k. i \<le> k \<Longrightarrow> k \<le> i + int n \<Longrightarrow> \<exists>ind. indentation (lib0\<lparr>Repeat := R\<rparr>) k = Inr ind"
    and "- (2 ^ 63) \<le> i" and "i + int n < 2 ^ 63"
  shows "written (fst (loop_body (lib0\<lparr>Repeat := R\<rparr>) (nested n) b i)) = [(''deep.txt'', ''deep'')]
   \<and> snd (loop_body (lib0\<lparr>Repeat := R\<rparr>) (nested n) b i) = Returned
   \<and> Stdout (projr (indentation (lib0\<lparr>Repeat := R\<rparr>) (i + int n)) @ '' ------------'' @ newline)
        \<in> set (fst (loop_body (lib0\<lparr>Repeat := R\<rparr>) (nested n) b i))"
  using assms
proof (induction n arbitrary: i b)
  case 0
  let ?L = "lib0\<lparr>Repeat := R\<rparr>"
  obtain ind where ind: "indentation ?L i = Inr ind"
    using "0.prems"(1) [of i] by auto
  have h: "snd (print_part_header ?L (Header (nested 0)) i) = Returned"
    using ind by (rule print_part_header_Returned)
  have l: "leaf_branch ?L (nested 0) b = ([FileWrite ''deep.txt'' ''deep'' None], Returned)"
    by (simp add: example_defs program_defs)
  have m: "\<not> is_multipart ?L (nested 0)"
    by (simp add: example_defs program_defs)
  have p: "Stdout (ind @ '' ------------'' @ newline)
             \<in> set (fst (print_part_header ?L (Header (nested 0)) i))"
    by (simp add: print_part_header_def fst_seq Println_indented_ok [OF ind]
        Printf_header_def ind)
  have step: "loop_body ?L (nested 0) b i =
     seq (print_part_header ?L (Header (nested 0)) i) (leaf_branch ?L (nested 0) b)"
    by (rule loop_body_leaf [OF m])
  show ?case
    unfolding step l using h p
    by (simp add: fst_seq snd_seq written_append written_print_part_header ind)
next
  case (Suc n)
  let ?L = "lib0\<lparr>Repeat := R\<rparr>"
  let ?lb = "level_boundary n"
  let ?h = "[(''Content-Type'', [''multipart/mixed; boundary='' @ ?lb])]"
  obtain ind where ind: "indentation ?L i = Inr ind"
    using Suc.prems(1) [of i] by auto
  obtain ind' where ind': "indentation ?L (i + 1) = Inr ind'"
    using Suc.prems(1) [of "i + 1"] by auto
  have next_index: "int64 (i + 1) = i + 1"
    using Suc.prems(2,3) by (intro int64_id) simp_all
  have h: "snd (print_part_header ?L ?h i) = Returned"
    using ind by (rule print_part_header_Returned)
  have c: "ParseMediaType ?L (Get (Header (nested (Suc n))) ''Content-Type'')
             = Inr (''multipart/mixed'', [''boundary'' \<mapsto> ?lb])"
    by (simp add: lib0_def Get_def media_types_boundary [simplified])
  have IH: "written (fst (loop_body ?L (nested n) ?lb (i + 1))) = [(''deep.txt'', ''deep'')]
   \<and> snd (loop_body ?L (nested n) ?lb (i + 1)) = Returned
   \<and> Stdout (projr (indentation ?L (i + 1 + int n)) @ '' ------------'' @ newline)
        \<in> set (fst (loop_body ?L (nested n) ?lb (i + 1)))"
  proof (rule Suc.IH)
    show "\<exists>ind. indentation ?L k = Inr ind" if "i + 1 \<le> k" and "k \<le> i + 1 + int n" for k
      using that by (intro Suc.prems(1)) simp_all
    show "- (2 ^ 63) \<le> i + 1"
      using Suc.prems(2) by simp
    show "i + 1 + int n < 2 ^ 63"
      using Suc.prems(3) by simp
  qed
  have inner: "ParsePart ?L (multi ?lb [nested n]) ?lb (i + 1) =
     ([Stdout (ind' @ '' '' @ (''>>>>>>>>>>>>>  '' @ ?lb) @ newline)]
        @ fst (loop_body ?L (nested n) ?lb (i + 1))
        @ [Stdout (ind' @ '' '' @ (''<<<<<<<<<<<<<  '' @ ?lb) @ newline)],
      Returned)"
    using IH by (simp add: multi_def Println_indented_ok [OF ind'] fst_seq snd_seq)
  have "loop_body ?L (nested (Suc n)) b i =
     seq (print_part_header ?L (Header (nested (Suc n))) i)
         (ParsePart ?L (body (nested (Suc n))) (map_index [''boundary'' \<mapsto> ?lb] ''boundary'')
            (int64 (i + 1)))"
    by (rule loop_body_multipart [OF c]) simp
  then have step: "loop_body ?L (nested (Suc n)) b i =
     seq (print_part_header ?L ?h i) (ParsePart ?L (multi ?lb [nested n]) ?lb (i + 1))"
    by (simp only: next_index map_index_def nested.simps part.sel map_upd_Some_unfold
        fun_upd_same option.case)
  have eq: "i + int (Suc n) = i + 1 + int n"
    by simp
  show ?case
    unfolding step inner eq using h IH
    by (simp add: fst_seq snd_seq written_append written_print_part_header)
qed

subsection \<open>A stream of named leaves\<close>

text \<open>
  On a stream of leaves that all get a name, the loop does, apart from printing, what
  \<open>WritePart\<close> does on each part, in the order of the stream.
\<close>

lemma named_leaves_in_stream_order:
  assumes "indentation L index = Inr ind"
    and "\<And>p. p \<in> set ps \<Longrightarrow> \<not> is_multipart L p \<and> BuildFileName L p boundary 1 = Inr (name p)"
  shows "off_stdout (fst (for_loop L ps boundary index))
           = concat (map (\<lambda>p. off_stdout (WritePart L p (name p))) ps)
         \<and> snd (for_loop L ps boundary index) = Returned"
  using assms(2)
proof (induction ps)
  case Nil
  show ?case by simp
next
  case (Cons p ps)
  have leaf: "\<not> is_multipart L p" and named: "BuildFileName L p boundary 1 = Inr (name p)"
    using Cons.prems [of p] by simp_all
  have h: "snd (print_part_header L (Header p) index) = Returned"
    using assms(1) by (rule print_part_header_Returned)
  have body: "loop_body L p boundary index
                = (fst (print_part_header L (Header p) index) @ WritePart L p (name p), Returned)"
    using h by (simp add: loop_body_leaf [OF leaf] leaf_branch_def named fst_seq snd_seq
        prod_eq_iff)
  have rest: "off_stdout (fst (for_loop L ps boundary index))
           = concat (map (\<lambda>p. off_stdout (WritePart L p (name p))) ps)
         \<and> snd (for_loop L ps boundary index) = Returned"
    by (rule Cons.IH) (simp add: Cons.prems)
  show ?case
    using rest by (simp add: body off_stdout_append off_stdout_print_part_header)
qed

section \<open>The claims\<close>

text \<open>
  C1, as the code has it. The loop body recurses exactly when the part's \<^verbatim>\<open>Content-Type\<close>
  parses and its media type has the prefix \<^verbatim>\<open>multipart/\<close>, whatever the \<^verbatim>\<open>boundary\<close>
  parameter is: the recursive call gets \<^verbatim>\<open>params["boundary"]\<close>, the empty string when
  the parameter is missing, and index + 1. Every other part is named and written.
\<close>

theorem recursion_on_media_type_alone:
  "(is_multipart L p \<longrightarrow>
      loop_body L p boundary index =
        seq (print_part_header L (Header p) index)
            (ParsePart L (body p) (declared_boundary L p) (int64 (index + 1))))
   \<and> (\<not> is_multipart L p \<longrightarrow>
      loop_body L p boundary index =
        seq (print_part_header L (Header p) index) (leaf_branch L p boundary))"
  by (cases p) (auto simp: is_multipart_def declared_boundary_def split: sum.splits)

theorem recursion_on_media_type_alone_witness:
  "is_multipart lib0 bare_multipart
   \<and> declared_boundary lib0 bare_multipart = []
   \<and> loop_body lib0 bare_multipart ''B'' 1 =
        seq (print_part_header lib0 (Header bare_multipart) 1)
            (ParsePart lib0 (body bare_multipart) [] 2)
   \<and> \<not> is_multipart lib0 (text_part ''one'')
   \<and> loop_body lib0 (text_part ''one'') ''B'' 1 =
        seq (print_part_header lib0 (Header (text_part ''one'')) 1)
            (leaf_branch lib0 (text_part ''one'') ''B'')"
proof -
  have a: "is_multipart lib0 bare_multipart"
    by (simp add: example_defs program_defs)
  have b: "declared_boundary lib0 bare_multipart = []"
    by (simp add: example_defs program_defs)
  have c: "\<not> is_multipart lib0 (text_part ''one'')"
    by (simp add: example_defs program_defs)
  have d: "int64 (1 + 1) = 2"
    by (simp add: int64_def)
  show ?thesis
    using a b c d
      recursion_on_media_type_alone [of lib0 bare_multipart "''B''" 1]
      recursion_on_media_type_alone [of lib0 "text_part ''one''" "''B''" 1]
    by simp
qed

text \<open>
  C1 as stated: a part declared \<^verbatim>\<open>multipart/mixed\<close> with no \<^verbatim>\<open>boundary\<close> parameter is
  not handled as a leaf. Handled as a leaf it would be written to \<^verbatim>\<open>inner.bin\<close>; the
  program enters it at index 2 with the empty boundary, nothing is written or logged, and
  the error of the multipart reader is printed.
\<close>

theorem multipart_without_boundary_is_entered:
  "ParseMediaType lib0 (Get (Header bare_multipart) ''Content-Type'')
     = Inr (''multipart/mixed'', Map.empty)
   \<and> written (fst (seq (print_part_header lib0 (Header bare_multipart) 1)
                       (leaf_branch lib0 bare_multipart ''B'')))
       = [(''inner.bin'', ''data'')]
   \<and> written (fst (loop_body lib0 bare_multipart ''B'' 1)) = []
   \<and> off_stdout (fst (loop_body lib0 bare_multipart ''B'' 1)) = []
   \<and> Stdout (''     >>>>>>>>>>>>>  '' @ newline) \<in> set (fst (loop_body lib0 bare_multipart ''B'' 1))
   \<and> Stdout (''Error going through the MIME parts - multipart: boundary is empty'' @ newline)
       \<in> set (fst (loop_body lib0 bare_multipart ''B'' 1))"
  by (simp add: example_defs program_defs indentation_1 indentation_2 int64_def)

text \<open>
  C2 at a failing input: two \<^verbatim>\<open>text/plain\<close> parts without a file name under the boundary
  \<^verbatim>\<open>B\<close> are both written to \<^verbatim>\<open>B-1.txt\<close>.
\<close>

theorem two_leaves_one_name:
  "written (fst (ParsePart lib0 (multi ''B'' [text_part ''one'', text_part ''two'']) ''B'' 1))
     = [(''B-1.txt'', ''one''), (''B-1.txt'', ''two'')]"
  by (simp add: example_defs program_defs indentation_1)

text \<open>
  C3 at two failing inputs. A message of two leaves, the first of a media type with no
  registered extension: the run panics in \<open>BuildFileName\<close> before any file is written.
  A message of one leaf with no header: the file name is empty and the write fails.
\<close>

theorem unnamed_leaf_is_not_written:
  "ParsePart lib0 (multi ''B'' [unregistered_part ''one'', text_part ''two'']) ''B'' 1
     = ([Stdout ('' >>>>>>>>>>>>>  B'' @ newline),
         Stdout ('' Key: (Content-Type) - 1 Value: ([]string{''
                   @ quoted ''application/x-unregistered'' @ ''})'' @ newline),
         Stdout ('' ------------'' @ newline)],
        Panicked IndexOutOfRange)
   \<and> written (fst (ParsePart lib0 (multi ''B'' [untyped_part ''one'']) ''B'' 1)) = []
   \<and> snd (ParsePart lib0 (multi ''B'' [untyped_part ''one'']) ''B'' 1) = Returned"
  by (simp add: example_defs program_defs indentation_1)

text \<open>
  C4, as the code has it. \<open>main\<close> ends in \<^verbatim>\<open>log.Fatal\<close> exactly when the message could
  not be read at all or the \<^verbatim>\<open>Content-Type\<close> of the message does not parse (as the
  empty value of a missing header does not) or names a media type without the prefix
  \<^verbatim>\<open>multipart/\<close>; and then no file has been written, nor any write attempted.
\<close>

theorem main_fatal_conditions:
  "(snd (main L read_message) = Exited)
     = (case read_message of Inl err \<Rightarrow> True | Inr m \<Rightarrow> top_level_unclassifiable L m)
   \<and> (snd (main L read_message) = Exited \<longrightarrow>
        written (fst (main L read_message)) = []
        \<and> reported (fst (main L read_message)) = fst (main L read_message))"
proof (cases read_message)
  case (Inl err)
  then show ?thesis
    by (simp add: main_def log_Fatal_def)
next
  case (Inr m)
  show ?thesis
  proof (cases "top_level_unclassifiable L m")
    case True
    then show ?thesis
      unfolding Inr main_read by (simp add: Println_def log_Fatal_def)
  next
    case False
    then show ?thesis
      unfolding Inr main_read by (simp add: Println_def ParsePart_not_Exited)
  qed
qed

theorem main_fatal_conditions_witness:
  "top_level_unclassifiable lib0 plain_message
   \<and> snd (main lib0 (Inr plain_message)) = Exited
   \<and> written (fst (main lib0 (Inr plain_message))) = []
   \<and> top_level_unclassifiable lib0 headerless_message
   \<and> snd (main lib0 (Inr headerless_message)) = Exited
   \<and> written (fst (main lib0 (Inr headerless_message))) = []"
proof -
  have a: "top_level_unclassifiable lib0 plain_message"
    by (simp add: example_defs program_defs)
  have b: "top_level_unclassifiable lib0 headerless_message"
    by (simp add: example_defs program_defs)
  show ?thesis
    using a b main_fatal_conditions [of lib0 "Inr plain_message"]
      main_fatal_conditions [of lib0 "Inr headerless_message"]
    by simp
qed

text \<open>
  C4 as stated: an unclassifiable top-level \<^verbatim>\<open>Content-Type\<close> is not the only condition
  that aborts the run. When \<^verbatim>\<open>mail.ReadMessage\<close> fails, \<open>main\<close> ends in \<^verbatim>\<open>log.Fatalln\<close>
  before any header is looked at.
\<close>

theorem unreadable_message_is_fatal:
  "snd (main lib0 (Inl ''malformed MIME header line: x'')) = Exited
   \<and> \<not> (\<exists>m. (Inl ''malformed MIME header line: x'' :: string + message) = Inr m
            \<and> top_level_unclassifiable lib0 m)"
  by (simp add: main_def log_Fatal_def)

text \<open>
  C5. A leaf part whose \<^verbatim>\<open>Content-Transfer-Encoding\<close>, put in upper case by
  \<^verbatim>\<open>strings.ToUpper\<close>, is neither \<^verbatim>\<open>BASE64\<close> nor \<^verbatim>\<open>QUOTED-PRINTABLE\<close> (so \<^verbatim>\<open>7BIT\<close>,
  \<^verbatim>\<open>8BIT\<close>, \<^verbatim>\<open>BINARY\<close>, any other token, or no header at all, whose value is the empty
  string) is written with exactly the bytes read from its body.
\<close>

theorem WritePart_passes_bytes_through:
  assumes "ReadAll (body part) = Inr part_data"
    and "ToUpper L (Get (Header part) ''Content-Transfer-Encoding'')
           \<notin> {''BASE64'', ''QUOTED-PRINTABLE''}"
  shows "WritePart L part filename =
           [FileWrite filename part_data (WriteFile L filename part_data)]"
  using assms by (simp add: WritePart_def)

theorem WritePart_passes_bytes_through_witness:
  "ReadAll (body (encoded_part ''8bit'' ''x'')) = Inr ''x''
   \<and> ToUpper lib0 (Get (Header (encoded_part ''8bit'' ''x'')) ''Content-Transfer-Encoding'')
        = ''8BIT''
   \<and> ''8BIT'' \<notin> {''BASE64'', ''QUOTED-PRINTABLE''}
   \<and> WritePart lib0 (encoded_part ''8bit'' ''x'') ''f'' = [FileWrite ''f'' ''x'' None]
   \<and> ReadAll (body (text_part ''y'')) = Inr ''y''
   \<and> ToUpper lib0 (Get (Header (text_part ''y'')) ''Content-Transfer-Encoding'') = []
   \<and> WritePart lib0 (text_part ''y'') ''g'' = [FileWrite ''g'' ''y'' None]"
proof -
  have a: "ReadAll (body (encoded_part ''8bit'' ''x'')) = Inr ''x''"
    by (simp add: encoded_part_def plain_def)
  have u: "ToUpper lib0 (Get (Header (encoded_part ''8bit'' ''x'')) ''Content-Transfer-Encoding'')
        = ''8BIT''"
    by (simp add: example_defs Get_def)
  have b: "ToUpper lib0 (Get (Header (encoded_part ''8bit'' ''x'')) ''Content-Transfer-Encoding'')
        \<notin> {''BASE64'', ''QUOTED-PRINTABLE''}"
    unfolding u by simp
  have c: "ReadAll (body (text_part ''y'')) = Inr ''y''"
    by (simp add: text_part_def plain_def)
  have v: "ToUpper lib0 (Get (Header (text_part ''y'')) ''Content-Transfer-Encoding'') = []"
    by (simp add: example_defs Get_def)
  have d: "ToUpper lib0 (Get (Header (text_part ''y'')) ''Content-Transfer-Encoding'')
        \<notin> {''BASE64'', ''QUOTED-PRINTABLE''}"
    unfolding v by simp
  show ?thesis
    using a u c v WritePart_passes_bytes_through [OF a b, of "''f''"]
      WritePart_passes_bytes_through [OF c d, of "''g''"]
    by (simp add: lib0_def)
qed

text \<open>
  C6 at a failing input. The first leaf of the message is declared \<^verbatim>\<open>base64\<close>, its body
  is not base64, it has no file name and its media type has no registered extension.
  \<open>BuildFileName\<close>, called before \<open>WritePart\<close>, panics on \<^verbatim>\<open>mime_type[0]\<close>: the run ends
  there, the failure to decode is not logged, and the leaf that follows is not
  processed. The same leaf under a file name is logged and skipped, and the leaf that
  follows is written.
\<close>

theorem undecodable_leaf_stops_the_run:
  "ToUpper lib0 (Get (Header undecodable_unnamed_part) ''Content-Transfer-Encoding'') = ''BASE64''
   \<and> ReadAll (body undecodable_unnamed_part) = Inr ''!!!!''
   \<and> DecodeString lib0 ''!!!!'' = Inl ''illegal base64 data at input byte 0''
   \<and> ParsePart lib0 (multi ''B'' [undecodable_unnamed_part, text_part ''two'']) ''B'' 1
       = ([Stdout ('' >>>>>>>>>>>>>  B'' @ newline),
           Stdout ('' Key: (Content-Type) - 1 Value: ([]string{''
                     @ quoted ''application/x-unregistered'' @ ''})'' @ newline),
           Stdout ('' Key: (Content-Transfer-Encoding) - 1 Value: ([]string{''
                     @ quoted ''base64'' @ ''})'' @ newline),
           Stdout ('' ------------'' @ newline)],
          Panicked IndexOutOfRange)
   \<and> off_stdout (fst (ParsePart lib0 (multi ''B'' [encoded_part ''base64'' ''!!!!'',
                                                   text_part ''two'']) ''B'' 1))
       = [log_Println ''Error decoding base64 - illegal base64 data at input byte 0'',
          FileWrite ''B-1.txt'' ''two'' None]
   \<and> snd (ParsePart lib0 (multi ''B'' [encoded_part ''base64'' ''!!!!'', text_part ''two'']) ''B'' 1)
       = Returned"
  by (simp add: example_defs program_defs indentation_1)

text \<open>
  C7 at two failing inputs: for a part with no file name and no \<^verbatim>\<open>Content-Type\<close>,
  \<open>BuildFileName\<close> returns the empty name; for one whose media type has no registered
  extension, it panics on \<^verbatim>\<open>mime_type[0]\<close>.
\<close>

theorem BuildFileName_without_media_type:
  "BuildFileName lib0 (untyped_part ''one'') ''B'' 1 = Inr []
   \<and> BuildFileName lib0 (unregistered_part ''one'') ''B'' 1 = Inl IndexOutOfRange"
  by (simp add: example_defs program_defs)

text \<open>
  C8, as the code has it. The error returned by \<^verbatim>\<open>ioutil.WriteFile\<close> is discarded. When
  the write of a leaf fails, the turn of the loop on that leaf is the prints of its
  header, then the failed call, and nothing else: nothing is printed or logged about the
  write, and the part is not reported as written. The turn returns, and the loop goes on
  with the parts that follow. What a traversal prints and logs, and the way it ends, are
  the same whatever the outcome of the writes.
\<close>

theorem write_failures_are_not_reported:
  assumes "\<not> is_multipart L p"
    and "FileWrite filename data (Some err) \<in> set (fst (loop_body L p boundary index))"
    and "NextParts r boundary = before @ p # after"
  shows "loop_body L p boundary index
           = (fst (print_part_header L (Header p) index) @ [FileWrite filename data (Some err)],
              Returned)
       \<and> reported (fst (loop_body L p boundary index)) = fst (print_part_header L (Header p) index)
       \<and> ParsePart L r boundary index =
           seq (Println_indented L index (''>>>>>>>>>>>>>  '' @ boundary))
          (seq (for_loop L before boundary index)
          (seq (fst (print_part_header L (Header p) index) @ [FileWrite filename data (Some err)],
                Returned)
          (seq (for_loop L after boundary index)
          (seq (case NextErr r boundary of
                  None \<Rightarrow> ([], Returned)
                | Some e \<Rightarrow> Println (''Error going through the MIME parts - '' @ e))
               (Println_indented L index (''<<<<<<<<<<<<<  '' @ boundary))))))
       \<and> reported (fst (ParsePart (L\<lparr>WriteFile := w\<rparr>) r boundary index))
           = reported (fst (ParsePart L r boundary index))
       \<and> snd (ParsePart (L\<lparr>WriteFile := w\<rparr>) r boundary index) = snd (ParsePart L r boundary index)"
proof -
  let ?H = "print_part_header L (Header p) index"
  let ?e = "FileWrite filename data (Some err)"
  have stdout: "off_stdout (fst ?H) = []"
    by (rule off_stdout_print_part_header)
  have no: "?e \<notin> set (fst ?H)"
    using stdout by (rule only_Stdout_no_write)
  have lb: "loop_body L p boundary index = seq ?H (leaf_branch L p boundary)"
    using assms(1) by (rule loop_body_leaf)
  have ret: "snd ?H = Returned"
    using assms(2) no unfolding lb by (auto simp: fst_seq split: if_splits)
  have "?e \<in> set (fst (leaf_branch L p boundary))"
    using assms(2) no ret unfolding lb by (simp add: fst_seq)
  then obtain name where named: "BuildFileName L p boundary 1 = Inr name"
    and w: "?e \<in> set (WritePart L p name)"
    by (auto simp: leaf_branch_def split: sum.splits)
  have wp: "WritePart L p name = [?e]"
    using w by (rule WritePart_single)
  have turn: "loop_body L p boundary index = (fst ?H @ [?e], Returned)"
    unfolding lb using ret by (simp add: leaf_branch_def named wp prod_eq_iff fst_seq snd_seq)
  have rep: "reported (fst (loop_body L p boundary index)) = fst ?H"
    unfolding turn using stdout by (simp add: reported_append only_Stdout_reported)
  have loop: "for_loop L (before @ p # after) boundary index =
                seq (for_loop L before boundary index)
                    (seq (fst ?H @ [?e], Returned) (for_loop L after boundary index))"
    by (simp only: map_append list.map seqs_append seqs.simps turn)
  have whole: "ParsePart L r boundary index =
           seq (Println_indented L index (''>>>>>>>>>>>>>  '' @ boundary))
          (seq (for_loop L before boundary index)
          (seq (fst ?H @ [?e], Returned)
          (seq (for_loop L after boundary index)
          (seq (case NextErr r boundary of
                  None \<Rightarrow> ([], Returned)
                | Some e \<Rightarrow> Println (''Error going through the MIME parts - '' @ e))
               (Println_indented L index (''<<<<<<<<<<<<<  '' @ boundary))))))"
  proof (cases r)
    case (Reader data parts stop)
    have parts: "parts boundary = before @ p # after"
      using assms(3) Reader by simp
    show ?thesis
      unfolding Reader ParsePart.simps parts loop reader.sel
      by (simp only: seq_assoc)
  qed
  have same: "same_reports (ParsePart (L\<lparr>WriteFile := w\<rparr>) r boundary index)
                           (ParsePart L r boundary index)"
    by (rule ParsePart_WriteFile(1))
  show ?thesis
    using turn rep whole same by (simp only: same_reports_def simp_thms)
qed

theorem write_failures_are_not_reported_witness:
  "\<not> is_multipart disk_full (text_part ''one'')
   \<and> FileWrite ''B-1.txt'' ''one'' (Some ''write B-1.txt: no space left on device'')
        \<in> set (fst (loop_body disk_full (text_part ''one'') ''B'' 1))
   \<and> NextParts (multi ''B'' [text_part ''one'', text_part ''two'']) ''B''
        = [] @ text_part ''one'' # [text_part ''two'']
   \<and> reported (fst (loop_body disk_full (text_part ''one'') ''B'' 1))
        = fst (print_part_header disk_full (Header (text_part ''one'')) 1)"
proof -
  let ?e = "FileWrite ''B-1.txt'' ''one'' (Some ''write B-1.txt: no space left on device'')"
  have a: "\<not> is_multipart disk_full (text_part ''one'')"
    by (simp add: disk_full_def example_defs program_defs)
  have b: "?e \<in> set (fst (loop_body disk_full (text_part ''one'') ''B'' 1))"
    by (simp add: disk_full_def example_defs program_defs indentation_1)
  have c: "NextParts (multi ''B'' [text_part ''one'', text_part ''two'']) ''B''
             = [] @ text_part ''one'' # [text_part ''two'']"
    by (simp add: multi_def)
  show ?thesis
    using a b c write_failures_are_not_reported [OF a b c, THEN conjunct2, THEN conjunct1]
    by (simp only: simp_thms)
qed

text \<open>
  C8 as stated: on a full disk the writes of both leaves fail, and no failure is
  reported. The run is the run of a traversal in which every write succeeds, but for the
  outcome of the two calls: the same lines are printed, nothing is logged, and it
  returns.
\<close>

theorem failed_write_is_silent:
  "ParsePart disk_full (multi ''B'' [text_part ''one'', text_part ''two'']) ''B'' 1
     = ([Stdout ('' >>>>>>>>>>>>>  B'' @ newline),
         Stdout ('' Key: (Content-Type) - 1 Value: ([]string{'' @ quoted ''text/plain'' @ ''})''
                   @ newline),
         Stdout ('' ------------'' @ newline),
         FileWrite ''B-1.txt'' ''one'' (Some ''write B-1.txt: no space left on device''),
         Stdout ('' Key: (Content-Type) - 1 Value: ([]string{'' @ quoted ''text/plain'' @ ''})''
                   @ newline),
         Stdout ('' ------------'' @ newline),
         FileWrite ''B-1.txt'' ''two'' (Some ''write B-1.txt: no space left on device''),
         Stdout ('' <<<<<<<<<<<<<  B'' @ newline)],
        Returned)
   \<and> reported (fst (ParsePart disk_full (multi ''B'' [text_part ''one'', text_part ''two'']) ''B'' 1))
       = reported (fst (ParsePart lib0 (multi ''B'' [text_part ''one'', text_part ''two'']) ''B'' 1))"
  by (simp add: disk_full_def example_defs program_defs indentation_1)

text \<open>
  C9, as the code has it. There is no limit on the recursion depth, and nothing to
  configure one. At every index the turn of the loop on a multipart part, once the
  header is printed, is the traversal of that part at the next index: no test looks at
  the index. So a nesting deeper than the 50 levels that the specification proposes as a
  maximum is traversed: a leaf nested \<open>n\<close> levels deep is reached at index \<open>n + 1\<close> and
  written, here shown for every \<open>n\<close> up to 1000.
\<close>

theorem no_depth_limit:
  "(is_multipart L p \<and> snd (print_part_header L (Header p) index) = Returned \<longrightarrow>
      fst (loop_body L p boundary index)
        = fst (print_part_header L (Header p) index)
            @ fst (ParsePart L (body p) (declared_boundary L p) (int64 (index + 1)))
      \<and> snd (loop_body L p boundary index)
        = snd (ParsePart L (body p) (declared_boundary L p) (int64 (index + 1))))
   \<and> (n \<le> 1000 \<longrightarrow>
      written (fst (ParsePart lib0 (multi ''top'' [nested n]) ''top'' 1)) = [(''deep.txt'', ''deep'')]
      \<and> snd (ParsePart lib0 (multi ''top'' [nested n]) ''top'' 1) = Returned
      \<and> Stdout (indent_text (1 + int n) @ '' ------------'' @ newline)
           \<in> set (fst (ParsePart lib0 (multi ''top'' [nested n]) ''top'' 1)))"
proof (intro conjI impI)
  assume a: "is_multipart L p \<and> snd (print_part_header L (Header p) index) = Returned"
  have step: "loop_body L p boundary index =
          seq (print_part_header L (Header p) index)
              (ParsePart L (body p) (declared_boundary L p) (int64 (index + 1)))"
    using a by (cases p) (auto simp: is_multipart_def declared_boundary_def split: sum.splits)
  show "fst (loop_body L p boundary index)
        = fst (print_part_header L (Header p) index)
            @ fst (ParsePart L (body p) (declared_boundary L p) (int64 (index + 1)))"
    unfolding step using a by (simp add: fst_seq)
  show "snd (loop_body L p boundary index)
        = snd (ParsePart L (body p) (declared_boundary L p) (int64 (index + 1)))"
    unfolding step using a by (simp add: snd_seq)
next
  assume n: "n \<le> 1000"
  have L: "lib0\<lparr>Repeat := Repeat_within (2 ^ 20)\<rparr> = lib0"
    by (simp add: lib0_def)
  have R: "Repeat lib0 = Repeat_within (2 ^ 20)"
    by (simp add: lib0_def)
  have ind: "indentation lib0 k = Inr (indent_text k)" if "1 \<le> k" and "k \<le> 1 + int n" for k
    using R that n by (intro indentation_within) simp_all
  have all: "\<exists>ind. indentation (lib0\<lparr>Repeat := Repeat_within (2 ^ 20)\<rparr>) k = Inr ind"
    if "1 \<le> k" and "k \<le> 1 + int n" for k
    unfolding L using that by (simp add: ind)
  have "- (2 ^ 63) \<le> (1::int)" and "1 + int n < 2 ^ 63"
    using n by simp_all
  with all have
    "written (fst (loop_body (lib0\<lparr>Repeat := Repeat_within (2 ^ 20)\<rparr>) (nested n) ''top'' 1))
       = [(''deep.txt'', ''deep'')]
     \<and> snd (loop_body (lib0\<lparr>Repeat := Repeat_within (2 ^ 20)\<rparr>) (nested n) ''top'' 1) = Returned
     \<and> Stdout (projr (indentation (lib0\<lparr>Repeat := Repeat_within (2 ^ 20)\<rparr>) (1 + int n))
                 @ '' ------------'' @ newline)
          \<in> set (fst (loop_body (lib0\<lparr>Repeat := Repeat_within (2 ^ 20)\<rparr>) (nested n) ''top'' 1))"
    by (rule loop_body_nested)
  then have inside:
    "written (fst (loop_body lib0 (nested n) ''top'' 1)) = [(''deep.txt'', ''deep'')]
     \<and> snd (loop_body lib0 (nested n) ''top'' 1) = Returned
     \<and> Stdout (indent_text (1 + int n) @ '' ------------'' @ newline)
          \<in> set (fst (loop_body lib0 (nested n) ''top'' 1))"
    unfolding L by (simp add: ind)
  have top: "indentation lib0 1 = Inr []"
    using R by (rule indentation_1)
  show "written (fst (ParsePart lib0 (multi ''top'' [nested n]) ''top'' 1)) = [(''deep.txt'', ''deep'')]"
    using inside
    by (simp add: multi_def Println_indented_ok [OF top] fst_seq snd_seq written_append)
  show "snd (ParsePart lib0 (multi ''top'' [nested n]) ''top'' 1) = Returned"
    using inside
    by (simp add: multi_def Println_indented_ok [OF top] fst_seq snd_seq)
  show "Stdout (indent_text (1 + int n) @ '' ------------'' @ newline)
           \<in> set (fst (ParsePart lib0 (multi ''top'' [nested n]) ''top'' 1))"
    using inside
    by (simp add: multi_def Println_indented_ok [OF top] fst_seq snd_seq)
qed

theorem no_depth_limit_witness:
  "is_multipart lib0 (nested 1)
   \<and> snd (print_part_header lib0 (Header (nested 1)) 1) = Returned
   \<and> snd (loop_body lib0 (nested 1) ''top'' 1)
       = snd (ParsePart lib0 (body (nested 1)) (declared_boundary lib0 (nested 1)) (int64 (1 + 1)))
   \<and> (2::nat) \<le> 1000
   \<and> written (fst (ParsePart lib0 (multi ''top'' [nested 2]) ''top'' 1)) = [(''deep.txt'', ''deep'')]
   \<and> snd (ParsePart lib0 (multi ''top'' [nested 2]) ''top'' 1) = Returned"
proof -
  have a: "is_multipart lib0 (nested 1)"
    by (simp add: example_defs program_defs numeral_eq_Suc)
  have R: "Repeat lib0 = Repeat_within (2 ^ 20)"
    by (simp add: lib0_def)
  have b: "snd (print_part_header lib0 (Header (nested 1)) 1) = Returned"
    using indentation_1 [OF R] by (rule print_part_header_Returned)
  have c: "(2::nat) \<le> 1000"
    by simp
  show ?thesis
    using a b c
      no_depth_limit [where L = lib0 and p = "nested 1" and index = 1 and boundary = "''top''"
        and n = 2]
    by simp
qed

text \<open>
  C9 as stated: a message nested 51 levels deep, one more than the maximum the
  specification proposes, is traversed to its leaf; no branch is cut.
\<close>

theorem depth_51_is_traversed:
  "written (fst (ParsePart lib0 (multi ''top'' [nested 51]) ''top'' 1)) = [(''deep.txt'', ''deep'')]
   \<and> snd (ParsePart lib0 (multi ''top'' [nested 51]) ''top'' 1) = Returned
   \<and> Stdout (indent_text 52 @ '' ------------'' @ newline)
        \<in> set (fst (ParsePart lib0 (multi ''top'' [nested 51]) ''top'' 1))"
proof -
  have L: "lib0\<lparr>Repeat := Repeat_within (2 ^ 20)\<rparr> = lib0"
    by (simp add: lib0_def)
  have R: "Repeat lib0 = Repeat_within (2 ^ 20)"
    by (simp add: lib0_def)
  have ind: "indentation lib0 k = Inr (indent_text k)" if "1 \<le> k" and "k \<le> 52" for k
    using R that by (intro indentation_within) simp_all
  have all: "\<exists>ind. indentation (lib0\<lparr>Repeat := Repeat_within (2 ^ 20)\<rparr>) k = Inr ind"
    if "1 \<le> k" and "k \<le> 1 + int 51" for k
    unfolding L using that by (simp add: ind)
  have "- (2 ^ 63) \<le> (1::int)" and "1 + int 51 < 2 ^ 63"
    by simp_all
  with all have
    "written (fst (loop_body (lib0\<lparr>Repeat := Repeat_within (2 ^ 20)\<rparr>) (nested 51) ''top'' 1))
       = [(''deep.txt'', ''deep'')]
     \<and> snd (loop_body (lib0\<lparr>Repeat := Repeat_within (2 ^ 20)\<rparr>) (nested 51) ''top'' 1) = Returned
     \<and> Stdout (projr (indentation (lib0\<lparr>Repeat := Repeat_within (2 ^ 20)\<rparr>) (1 + int 51))
                 @ '' ------------'' @ newline)
          \<in> set (fst (loop_body (lib0\<lparr>Repeat := Repeat_within (2 ^ 20)\<rparr>) (nested 51) ''top'' 1))"
    by (rule loop_body_nested)
  then have inside:
    "written (fst (loop_body lib0 (nested 51) ''top'' 1)) = [(''deep.txt'', ''deep'')]
     \<and> snd (loop_body lib0 (nested 51) ''top'' 1) = Returned
     \<and> Stdout (indent_text 52 @ '' ------------'' @ newline)
          \<in> set (fst (loop_body lib0 (nested 51) ''top'' 1))"
    unfolding L by (simp add: ind)
  have top: "indentation lib0 1 = Inr []"
    using R by (rule indentation_1)
  show ?thesis
    using inside
    by (simp add: multi_def Println_indented_ok [OF top] fst_seq snd_seq written_append)
qed



end
